theory Spec2Isabelle
  imports Main "HOL-Library.Multiset"
begin

section \<open>Data model of \<^verbatim>\<open>server.py\<close>\<close>

text \<open>
  The pydantic models of the chat flow.  \<^verbatim>\<open>ChatMessage\<close> keeps the field names of the
  source (\<open>id'\<close> for \<^verbatim>\<open>id\<close>, which is a constant of HOL); the fields \<^verbatim>\<open>message\<close> and
  \<^verbatim>\<open>session_id\<close> of \<^verbatim>\<open>ChatRequest\<close> and \<^verbatim>\<open>ChatResponse\<close> carry the prefix of their
  model, since record fields share one name space.  A \<^verbatim>\<open>datetime\<close> is a natural number
  (a count of clock ticks), an \<^verbatim>\<open>Optional\<close> field an \<open>option\<close>, Python's \<^verbatim>\<open>int\<close> is
  \<open>int\<close>.
\<close>

record ChatMessage =
  id' :: string
  session_id :: string
  message :: string
  sender :: string
  timestamp :: nat

record ChatRequest =
  request_message :: string
  request_session_id :: "string option"
  budget :: "string option"
  location :: "string option"
  duration :: "string option"
  travelers :: "int option"

record ChatResponse =
  response_message :: string
  response_session_id :: string
  image_url :: "string option"

text \<open>One entry of the \<^verbatim>\<open>messages\<close> list handed to the completion API.\<close>

record entry =
  role :: string
  content :: string

text \<open>
  The JSON body of \<^verbatim>\<open>POST /api/chat\<close> before validation: every key may be missing
  (\<^verbatim>\<open>null\<close> counts as missing for the optional keys).  Values of the wrong JSON type
  are outside this model.
\<close>

record ChatBody =
  body_message :: "string option"
  body_session_id :: "string option"
  body_budget :: "string option"
  body_location :: "string option"
  body_duration :: "string option"
  body_travelers :: "int option"

section \<open>Python and library primitives\<close>

text \<open>\<^verbatim>\<open>x or d\<close> on an optional string and on an optional integer: \<^verbatim>\<open>None\<close>, the empty
  string and \<^verbatim>\<open>0\<close> are falsy.\<close>

definition truthy_str :: "string option \<Rightarrow> bool" where
  "truthy_str x = (case x of None \<Rightarrow> False | Some s \<Rightarrow> s \<noteq> [])"

definition truthy_int :: "int option \<Rightarrow> bool" where
  "truthy_int x = (case x of None \<Rightarrow> False | Some n \<Rightarrow> n \<noteq> 0)"

definition or_str :: "string option \<Rightarrow> string \<Rightarrow> string" where
  "or_str x d = (case x of None \<Rightarrow> d | Some s \<Rightarrow> if s = [] then d else s)"

definition or_int :: "int option \<Rightarrow> int \<Rightarrow> int" where
  "or_int x d = (case x of None \<Rightarrow> d | Some n \<Rightarrow> if n = 0 then d else n)"

text \<open>\<^verbatim>\<open>str(n)\<close> for an integer: decimal digits, a minus sign for a negative number.\<close>

fun str_nat :: "nat \<Rightarrow> string" where
  "str_nat n =
     (if n < 10 then [''0123456789'' ! n]
      else str_nat (n div 10) @ [''0123456789'' ! (n mod 10)])"

declare str_nat.simps [simp del]

definition str_int :: "int \<Rightarrow> string" where
  "str_int i = (if i < 0 then ''-'' @ str_nat (nat (- i)) else str_nat (nat i))"

text \<open>
  \<^verbatim>\<open>str(uuid.uuid4())\<close>: the 128-bit integer of the identifier, drawn by the environment, as 32
  lower-case hexadecimal digits in groups of 8, 4, 4, 4 and 12.
\<close>

primrec hex_digits :: "nat \<Rightarrow> int \<Rightarrow> string" where
  "hex_digits 0 n = []"
| "hex_digits (Suc k) n = hex_digits k (n div 16) @ [''0123456789abcdef'' ! nat (n mod 16)]"

definition str_uuid :: "int \<Rightarrow> string" where
  "str_uuid u =
     (let h = hex_digits 32 (u mod 2 ^ 128)
      in take 8 h @ ''-'' @ take 4 (drop 8 h) @ ''-'' @ take 4 (drop 12 h) @ ''-''
         @ take 4 (drop 16 h) @ ''-'' @ drop 20 h)"

section \<open>The message store\<close>

text \<open>
  The collection \<^verbatim>\<open>db.chat_messages\<close> is the list of its documents in insertion order.
  \<^verbatim>\<open>find({"session_id": s}).sort("timestamp", 1).to_list(length=n)\<close> keeps the documents
  of the session, sorts them by ascending timestamp and returns the first \<open>n\<close> of the
  sorted sequence.  Documents with equal timestamps are returned in insertion order (the
  sort of the model is stable).
\<close>

type_synonym collection = "ChatMessage list"

definition find_docs :: "collection \<Rightarrow> string \<Rightarrow> ChatMessage list" where
  "find_docs db s = filter (\<lambda>msg. session_id msg = s) db"

definition sort_timestamp :: "ChatMessage list \<Rightarrow> ChatMessage list" where
  "sort_timestamp cursor = sort_key timestamp cursor"

definition to_list :: "nat \<Rightarrow> ChatMessage list \<Rightarrow> ChatMessage list" where
  "to_list n cursor = take n cursor"

definition insert_one :: "collection \<Rightarrow> ChatMessage \<Rightarrow> collection" where
  "insert_one db doc = db @ [doc]"

section \<open>The environment of one request\<close>

text \<open>
  Everything a request reads from outside: the random identifiers, the clock at the two
  \<^verbatim>\<open>ChatMessage\<close> constructions, the failures of the store operations (the text of the
  exception raised, if any) and the completion API, a function of the prompt that either
  raises (the text of its exception) or returns the \<^verbatim>\<open>content\<close> of each element of
  \<^verbatim>\<open>completion.choices\<close> (\<^verbatim>\<open>None\<close> for a null content).
\<close>

record env =
  uuid_session :: int
  uuid_user :: int
  uuid_assistant :: int
  now_user :: nat
  now_assistant :: nat
  insert_user_fault :: "string option"
  find_fault :: "string option"
  create_completion :: "entry list \<Rightarrow> string + string option list"
  validation_text :: string
  insert_assistant_fault :: "string option"

text \<open>The exceptions that can reach the \<^verbatim>\<open>except Exception as e\<close> of the chat handler, and
  \<^verbatim>\<open>str(e)\<close>.  The text of pydantic's error for \<^verbatim>\<open>message=None\<close> is taken from the
  environment.\<close>

datatype exn =
    StorageError string
  | GatewayError string
  | IndexError
  | ValidationError string

fun str_exn :: "exn \<Rightarrow> string" where
  "str_exn (StorageError s) = s"
| "str_exn (GatewayError s) = s"
| "str_exn IndexError = ''list index out of range''"
| "str_exn (ValidationError s) = s"

text \<open>What a handler does to the outside, in the order it does it; an operation that raises
  is recorded too.\<close>

datatype op =
    InsertOne ChatMessage
  | Find string nat
  | CreateCompletion "entry list"
  | LogError string

datatype 'a http_response =
    OK 'a
  | HTTPException nat string
  | RequestValidationError string

fun status_code :: "'a http_response \<Rightarrow> nat" where
  "status_code (OK r) = 200"
| "status_code (HTTPException c d) = c"
| "status_code (RequestValidationError f) = 422"

record 'a outcome =
  response :: "'a http_response"
  store :: collection
  ops :: "op list"

section \<open>Context assembly (lines 119 to 136 of \<^verbatim>\<open>chat_with_ai\<close>)\<close>

definition newline :: string where
  "newline = [CHR 0x0A]"

definition system_instructions :: entry where
  "system_instructions =
     \<lparr>role = ''system'',
      content = ''You are a helpful travel assistant. Always give unique, personalized plans.''\<rparr>"

definition history_entries :: "ChatMessage list \<Rightarrow> entry list" where
  "history_entries history = map (\<lambda>msg. \<lparr>role = sender msg, content = message msg\<rparr>) history"

definition has_trip_context :: "ChatRequest \<Rightarrow> bool" where
  "has_trip_context request =
     (truthy_str (location request) \<or> truthy_str (duration request)
      \<or> truthy_str (budget request) \<or> truthy_int (travelers request))"

definition trip_context :: "ChatRequest \<Rightarrow> string" where
  "trip_context request =
     newline @ ''            Trip details:'' @
     newline @ ''            - Location: '' @ or_str (location request) ''not specified'' @
     newline @ ''            - Duration: '' @ or_str (duration request) ''not specified'' @
     newline @ ''            - Budget: '' @ or_str (budget request) ''not specified'' @
     newline @ ''            - Travelers: '' @ str_int (or_int (travelers request) 1) @
     newline @ ''            ''"

definition assemble_messages :: "ChatMessage list \<Rightarrow> ChatRequest \<Rightarrow> entry list" where
  "assemble_messages history request =
     (let messages = history_entries history;
          messages = system_instructions # messages
      in if has_trip_context request
         then messages @ [\<lparr>role = ''system'', content = trip_context request\<rparr>]
         else messages)"

section \<open>The chat endpoint\<close>

definition validate_chat_request :: "ChatBody \<Rightarrow> string + ChatRequest" where
  "validate_chat_request body =
     (case body_message body of
        None \<Rightarrow> Inl ''message''
      | Some m \<Rightarrow>
          Inr \<lparr>request_message = m, request_session_id = body_session_id body,
               budget = body_budget body, location = body_location body,
               duration = body_duration body, travelers = body_travelers body\<rparr>)"

definition session_of :: "env \<Rightarrow> ChatRequest \<Rightarrow> string" where
  "session_of e request = or_str (request_session_id request) (str_uuid (uuid_session e))"

definition user_message_obj :: "env \<Rightarrow> ChatRequest \<Rightarrow> ChatMessage" where
  "user_message_obj e request =
     \<lparr>id' = str_uuid (uuid_user e), session_id = session_of e request,
      message = request_message request, sender = ''user'', timestamp = now_user e\<rparr>"

definition ai_message_obj :: "env \<Rightarrow> ChatRequest \<Rightarrow> string \<Rightarrow> ChatMessage" where
  "ai_message_obj e request reply =
     \<lparr>id' = str_uuid (uuid_assistant e), session_id = session_of e request,
      message = reply, sender = ''assistant'', timestamp = now_assistant e\<rparr>"

text \<open>The body of the \<^verbatim>\<open>try\<close>: the value returned or the exception raised, the collection
  and the operations performed up to that point.\<close>

definition chat_try :: "env \<Rightarrow> collection \<Rightarrow> ChatRequest \<Rightarrow> (exn + ChatResponse) \<times> collection \<times> op list" where
  "chat_try e db request =
     (let sid = session_of e request;
          user_msg = user_message_obj e request;
          t1 = [InsertOne user_msg]
      in case insert_user_fault e of
           Some x \<Rightarrow> (Inl (StorageError x), db, t1)
         | None \<Rightarrow>
             (let db1 = insert_one db user_msg;
                  t2 = t1 @ [Find sid 5]
              in case find_fault e of
                   Some x \<Rightarrow> (Inl (StorageError x), db1, t2)
                 | None \<Rightarrow>
                     (let history = to_list 5 (sort_timestamp (find_docs db1 sid));
                          messages = assemble_messages history request;
                          t3 = t2 @ [CreateCompletion messages]
                      in case create_completion e messages of
                           Inl x \<Rightarrow> (Inl (GatewayError x), db1, t3)
                         | Inr choices \<Rightarrow>
                             (case choices of
                                [] \<Rightarrow> (Inl IndexError, db1, t3)
                              | None # _ \<Rightarrow> (Inl (ValidationError (validation_text e)), db1, t3)
                              | Some reply # _ \<Rightarrow>
                                  (let ai_msg = ai_message_obj e request reply;
                                       t4 = t3 @ [InsertOne ai_msg]
                                   in case insert_assistant_fault e of
                                        Some x \<Rightarrow> (Inl (StorageError x), db1, t4)
                                      | None \<Rightarrow>
                                          (Inr \<lparr>response_message = reply,
                                                response_session_id = sid,
                                                image_url = None\<rparr>,
                                           insert_one db1 ai_msg, t4))))))"

text \<open>The handler with its \<^verbatim>\<open>except\<close> clause: the exception is logged and turned into an
  \<^verbatim>\<open>HTTPException\<close> of status 500.\<close>

definition chat_with_ai :: "env \<Rightarrow> collection \<Rightarrow> ChatRequest \<Rightarrow> ChatResponse outcome" where
  "chat_with_ai e db request =
     (case chat_try e db request of
        (Inr r, db', t) \<Rightarrow> \<lparr>response = OK r, store = db', ops = t\<rparr>
      | (Inl x, db', t) \<Rightarrow>
          \<lparr>response = HTTPException 500 (''Chat processing failed: '' @ str_exn x),
           store = db',
           ops = t @ [LogError (''Chat error: '' @ str_exn x)]\<rparr>)"

text \<open>\<^verbatim>\<open>POST /api/chat\<close>: the framework validates the body against \<^verbatim>\<open>ChatRequest\<close> (only
  \<^verbatim>\<open>message\<close> is required, and no field has a length constraint) and answers 422 without
  calling the handler when validation fails.\<close>

definition post_chat :: "env \<Rightarrow> collection \<Rightarrow> ChatBody \<Rightarrow> ChatResponse outcome" where
  "post_chat e db body =
     (case validate_chat_request body of
        Inl field \<Rightarrow> \<lparr>response = RequestValidationError field, store = db, ops = []\<rparr>
      | Inr request \<Rightarrow> chat_with_ai e db request)"

section \<open>The history endpoint\<close>

definition get_chat_history :: "env \<Rightarrow> collection \<Rightarrow> string \<Rightarrow> ChatMessage list outcome" where
  "get_chat_history e db sid =
     (case find_fault e of
        Some x \<Rightarrow>
          \<lparr>response = HTTPException 500 ''Failed to retrieve chat history'',
           store = db,
           ops = [Find sid 100, LogError (''Chat history error: '' @ x)]\<rparr>
      | None \<Rightarrow>
          \<lparr>response = OK (to_list 100 (sort_timestamp (find_docs db sid))),
           store = db,
           ops = [Find sid 100]\<rparr>)"

text \<open>The prompts a handler has sent to the completion API.\<close>

fun prompts :: "op list \<Rightarrow> entry list list" where
  "prompts [] = []"
| "prompts (CreateCompletion p # t) = p # prompts t"
| "prompts (_ # t) = prompts t"

text \<open>The documents a handler has tried to insert.\<close>

fun inserted :: "op list \<Rightarrow> ChatMessage list" where
  "inserted [] = []"
| "inserted (InsertOne m # t) = m # inserted t"
| "inserted (_ # t) = inserted t"

text \<open>The prompt \<^verbatim>\<open>chat_with_ai\<close> assembles once the user turn is in the collection: the
  query of lines 115 to 117 on the collection that holds the new turn, then lines 119 to
  136.\<close>

definition fetched :: "env \<Rightarrow> collection \<Rightarrow> ChatRequest \<Rightarrow> entry list" where
  "fetched e db request =
     assemble_messages
       (to_list 5 (sort_timestamp
          (find_docs (db @ [user_message_obj e request]) (session_of e request))))
       request"

text \<open>The two values of \<^verbatim>\<open>sender\<close> the comment on line 56 names.\<close>

definition user_or_assistant :: "string \<Rightarrow> bool" where
  "user_or_assistant s = (s = ''user'' \<or> s = ''assistant'')"

text \<open>The collections the chat endpoint can produce, starting from the empty one: no other
  code of the repository writes to \<^verbatim>\<open>db.chat_messages\<close>.\<close>

inductive chat_reachable :: "collection \<Rightarrow> bool" where
  empty: "chat_reachable []"
| chat: "chat_reachable db \<Longrightarrow> chat_reachable (store (post_chat e db body))"

section \<open>Sample requests and environments\<close>

definition env_ok :: env where
  "env_ok =
     \<lparr>uuid_session = 1, uuid_user = 2, uuid_assistant = 3,
      now_user = 1000, now_assistant = 1001,
      insert_user_fault = None, find_fault = None,
      create_completion = (\<lambda>messages. Inr [Some ''Here is your plan.'']),
      validation_text = ''1 validation error for ChatMessage'',
      insert_assistant_fault = None\<rparr>"

definition env_gateway_down :: env where
  "env_gateway_down =
     env_ok\<lparr>create_completion := (\<lambda>messages. Inl ''Incorrect API key provided: sk-test'')\<rparr>"

definition env_store_down :: env where
  "env_store_down =
     env_ok\<lparr>insert_user_fault := Some ''db.internal:27017: connection refused''\<rparr>"

definition env_no_choices :: env where
  "env_no_choices = env_ok\<lparr>create_completion := (\<lambda>messages. Inr [])\<rparr>"

definition request_plain :: ChatRequest where
  "request_plain =
     \<lparr>request_message = ''Hello'', request_session_id = Some ''s1'', budget = None,
      location = None, duration = None, travelers = None\<rparr>"


definition request_paris :: ChatRequest where
  "request_paris =
     \<lparr>request_message = ''Plan a trip to Paris for 5 days'', request_session_id = None,
      budget = Some ''$2000-3000'', location = Some ''Paris, France'',
      duration = Some ''5 days'', travelers = Some 2\<rparr>"

definition request_empty_location :: ChatRequest where
  "request_empty_location = request_plain\<lparr>location := Some []\<rparr>"

definition body_empty :: ChatBody where
  "body_empty =
     \<lparr>body_message = Some [], body_session_id = Some [], body_budget = None,
      body_location = None, body_duration = None, body_travelers = None\<rparr>"

definition turn :: "nat \<Rightarrow> string \<Rightarrow> string \<Rightarrow> ChatMessage" where
  "turn t who text =
     \<lparr>id' = str_uuid (100 + int t), session_id = ''s1'', message = text, sender = who,
      timestamp = t\<rparr>"

definition db6 :: collection where
  "db6 =
     [turn 1 ''user'' ''Plan three days in Rome'', turn 2 ''assistant'' ''Day 1: Colosseum'',
      turn 3 ''user'' ''Add a day trip'', turn 4 ''assistant'' ''Day 4: Tivoli'',
      turn 5 ''user'' ''What about food?'', turn 6 ''assistant'' ''Try carbonara'']"

definition long_session :: collection where
  "long_session = map (\<lambda>t. turn t (if even t then ''user'' else ''assistant'') (str_nat t)) [0..<100]"

definition env_find_down :: env where
  "env_find_down = env_ok\<lparr>find_fault := Some ''cursor id 42 not found''\<rparr>"

definition env_null_content :: env where
  "env_null_content = env_ok\<lparr>create_completion := (\<lambda>messages. Inr [None])\<rparr>"

definition env_insert_assistant_down :: env where
  "env_insert_assistant_down =
     env_ok\<lparr>insert_assistant_fault := Some ''not primary''\<rparr>"

definition request_rome :: ChatRequest where
  "request_rome = request_plain\<lparr>location := Some ''Rome''\<rparr>"

definition db_two_sessions :: collection where
  "db_two_sessions =
     [turn 1 ''user'' ''Plan three days in Rome'',
      \<lparr>id' = str_uuid 200, session_id = ''s2'', message = ''Hi'', sender = ''user'',
       timestamp = 2\<rparr>,
      turn 3 ''assistant'' ''Day 1: Colosseum'']"

definition long_session_101 :: collection where
  "long_session_101 = long_session @ [turn 100 ''user'' ''100'']"

section \<open>The paths through the chat handler\<close>



lemma find_docs_snoc_user:
  "find_docs (db @ [user_message_obj e request]) (session_of e request) =
   find_docs db (session_of e request) @ [user_message_obj e request]"
  by (simp add: find_docs_def user_message_obj_def)

lemma length_fetch:
  "length (to_list n (sort_timestamp
      (find_docs (db @ [user_message_obj e request]) (session_of e request))))
   = min n (Suc (length (find_docs db (session_of e request))))"
  by (simp add: to_list_def sort_timestamp_def find_docs_snoc_user min_def)

lemma chat_insert_user_fault:
  assumes "insert_user_fault e = Some x"
  shows "chat_with_ai e db request =
         \<lparr>response = HTTPException 500 (''Chat processing failed: '' @ x),
          store = db,
          ops = [InsertOne (user_message_obj e request), LogError (''Chat error: '' @ x)]\<rparr>"
  using assms by (simp add: chat_with_ai_def chat_try_def Let_def)

lemma chat_find_fault:
  assumes "insert_user_fault e = None" and "find_fault e = Some x"
  shows "chat_with_ai e db request =
         \<lparr>response = HTTPException 500 (''Chat processing failed: '' @ x),
          store = db @ [user_message_obj e request],
          ops = [InsertOne (user_message_obj e request), Find (session_of e request) 5,
                 LogError (''Chat error: '' @ x)]\<rparr>"
  using assms by (simp add: chat_with_ai_def chat_try_def Let_def insert_one_def)

lemma chat_gateway_error:
  assumes "insert_user_fault e = None" and "find_fault e = None"
    and "create_completion e (fetched e db request) = Inl x"
  shows "chat_with_ai e db request =
         \<lparr>response = HTTPException 500 (''Chat processing failed: '' @ x),
          store = db @ [user_message_obj e request],
          ops = [InsertOne (user_message_obj e request), Find (session_of e request) 5,
                 CreateCompletion (fetched e db request),
                 LogError (''Chat error: '' @ x)]\<rparr>"
  using assms by (simp add: chat_with_ai_def chat_try_def Let_def insert_one_def fetched_def)

lemma chat_no_choices:
  assumes "insert_user_fault e = None" and "find_fault e = None"
    and "create_completion e (fetched e db request) = Inr []"
  shows "chat_with_ai e db request =
         \<lparr>response = HTTPException 500 (''Chat processing failed: list index out of range''),
          store = db @ [user_message_obj e request],
          ops = [InsertOne (user_message_obj e request), Find (session_of e request) 5,
                 CreateCompletion (fetched e db request),
                 LogError (''Chat error: list index out of range'')]\<rparr>"
  using assms by (simp add: chat_with_ai_def chat_try_def Let_def insert_one_def fetched_def)

lemma chat_null_content:
  assumes "insert_user_fault e = None" and "find_fault e = None"
    and "create_completion e (fetched e db request) = Inr (None # cs)"
  shows "chat_with_ai e db request =
         \<lparr>response = HTTPException 500 (''Chat processing failed: '' @ validation_text e),
          store = db @ [user_message_obj e request],
          ops = [InsertOne (user_message_obj e request), Find (session_of e request) 5,
                 CreateCompletion (fetched e db request),
                 LogError (''Chat error: '' @ validation_text e)]\<rparr>"
  using assms by (simp add: chat_with_ai_def chat_try_def Let_def insert_one_def fetched_def)

lemma chat_insert_assistant_fault:
  assumes "insert_user_fault e = None" and "find_fault e = None"
    and "create_completion e (fetched e db request) = Inr (Some reply # cs)"
    and "insert_assistant_fault e = Some x"
  shows "chat_with_ai e db request =
         \<lparr>response = HTTPException 500 (''Chat processing failed: '' @ x),
          store = db @ [user_message_obj e request],
          ops = [InsertOne (user_message_obj e request), Find (session_of e request) 5,
                 CreateCompletion (fetched e db request),
                 InsertOne (ai_message_obj e request reply),
                 LogError (''Chat error: '' @ x)]\<rparr>"
  using assms by (simp add: chat_with_ai_def chat_try_def Let_def insert_one_def fetched_def)

lemma chat_success:
  assumes "insert_user_fault e = None" and "find_fault e = None"
    and "create_completion e (fetched e db request) = Inr (Some reply # cs)"
    and "insert_assistant_fault e = None"
  shows "chat_with_ai e db request =
         \<lparr>response = OK \<lparr>response_message = reply,
                           response_session_id = session_of e request, image_url = None\<rparr>,
          store = db @ [user_message_obj e request, ai_message_obj e request reply],
          ops = [InsertOne (user_message_obj e request), Find (session_of e request) 5,
                 CreateCompletion (fetched e db request),
                 InsertOne (ai_message_obj e request reply)]\<rparr>"
  using assms by (simp add: chat_with_ai_def chat_try_def Let_def insert_one_def fetched_def)

text \<open>The seven ways through the handler.\<close>

lemma chat_paths:
  obtains
    (insert_user) x where "insert_user_fault e = Some x"
  | (find) x where "insert_user_fault e = None" "find_fault e = Some x"
  | (gateway) x where "insert_user_fault e = None" "find_fault e = None"
      "create_completion e (fetched e db request) = Inl x"
  | (no_choices) "insert_user_fault e = None" "find_fault e = None"
      "create_completion e (fetched e db request) = Inr []"
  | (null_content) cs where "insert_user_fault e = None" "find_fault e = None"
      "create_completion e (fetched e db request) = Inr (None # cs)"
  | (insert_assistant) reply cs x where "insert_user_fault e = None" "find_fault e = None"
      "create_completion e (fetched e db request) = Inr (Some reply # cs)"
      "insert_assistant_fault e = Some x"
  | (success) reply cs where "insert_user_fault e = None" "find_fault e = None"
      "create_completion e (fetched e db request) = Inr (Some reply # cs)"
      "insert_assistant_fault e = None"
proof (cases "insert_user_fault e")
  case None
  note iu = this
  show ?thesis
  proof (cases "find_fault e")
    case None
    note ff = this
    show ?thesis
    proof (cases "create_completion e (fetched e db request)")
      case (Inl x)
      with iu ff show ?thesis by (rule gateway)
    next
      case (Inr choices)
      show ?thesis
      proof (cases choices)
        case Nil
        with Inr iu ff show ?thesis by (auto intro: no_choices)
      next
        case (Cons c cs)
        show ?thesis
        proof (cases c)
          case None
          with Cons Inr iu ff show ?thesis by (auto intro: null_content)
        next
          case (Some reply)
          show ?thesis
          proof (cases "insert_assistant_fault e")
            case None
            with Some Cons Inr iu ff show ?thesis by (auto intro: success)
          next
            case (Some x)
            with \<open>c = Some reply\<close> Cons Inr iu ff show ?thesis by (auto intro: insert_assistant)
          qed
        qed
      qed
    qed
  next
    case (Some x)
    with iu show ?thesis by (rule find)
  qed
next
  case (Some x)
  then show ?thesis by (rule insert_user)
qed

lemma prompts_chat_with_ai:
  assumes "insert_user_fault e = None" and "find_fault e = None"
  shows "prompts (ops (chat_with_ai e db request)) = [fetched e db request]"
  using assms
  by (cases rule: chat_paths [where e = e and db = db and request = request])
    (simp_all add: chat_gateway_error chat_no_choices chat_null_content
      chat_insert_assistant_fault chat_success)

lemma env_ok_simps:
  "uuid_session env_ok = 1" "uuid_user env_ok = 2" "uuid_assistant env_ok = 3"
  "now_user env_ok = 1000" "now_assistant env_ok = 1001"
  "insert_user_fault env_ok = None" "find_fault env_ok = None"
  "create_completion env_ok p = Inr [Some ''Here is your plan.'']"
  "insert_assistant_fault env_ok = None"
  by (simp_all add: env_ok_def)

lemma chat_env_ok:
  "chat_with_ai env_ok db request =
     \<lparr>response = OK \<lparr>response_message = ''Here is your plan.'',
                       response_session_id = session_of env_ok request, image_url = None\<rparr>,
      store = db @ [user_message_obj env_ok request,
                    ai_message_obj env_ok request ''Here is your plan.''],
      ops = [InsertOne (user_message_obj env_ok request), Find (session_of env_ok request) 5,
             CreateCompletion (fetched env_ok db request),
             InsertOne (ai_message_obj env_ok request ''Here is your plan.'')]\<rparr>"
  by (rule chat_success [where cs = "[]"]) (simp_all add: env_ok_simps)

lemma session_of_request_plain: "session_of e request_plain = ''s1''"
  by (simp add: session_of_def or_str_def request_plain_def)

lemma insort_key_snoc_max:
  "f x \<le> f a \<Longrightarrow> insort_key f x (ys @ [a]) = insort_key f x ys @ [a]"
  by (induction ys) simp_all

lemma sort_key_snoc_max:
  "\<forall>x \<in> set xs. f x \<le> f a \<Longrightarrow> sort_key f (xs @ [a]) = sort_key f xs @ [a]"
proof (induction xs)
  case Nil
  then show ?case by simp
next
  case (Cons x xs)
  then show ?case by (simp add: insort_key_snoc_max)
qed

lemma chat_OK_D:
  assumes "response (chat_with_ai e db request) = OK r"
  shows "store (chat_with_ai e db request) =
           db @ [user_message_obj e request, ai_message_obj e request (response_message r)]
         \<and> response_session_id r = session_of e request"
proof (cases rule: chat_paths [where e = e and db = db and request = request])
  case (insert_user x)
  from chat_insert_user_fault [OF this, of db request] assms show ?thesis by simp
next
  case (find x)
  from chat_find_fault [OF this, of db request] assms show ?thesis by simp
next
  case (gateway x)
  from chat_gateway_error [OF this] assms show ?thesis by simp
next
  case no_choices
  from chat_no_choices [OF this] assms show ?thesis by simp
next
  case (null_content cs)
  from chat_null_content [OF this] assms show ?thesis by simp
next
  case (insert_assistant reply cs x)
  from chat_insert_assistant_fault [OF this] assms show ?thesis by simp
next
  case (success reply cs)
  from chat_success [OF this] assms show ?thesis by auto
qed

lemma get_chat_history_ok:
  "find_fault e = None \<Longrightarrow>
   response (get_chat_history e db sid) = OK (take 100 (sort_key timestamp (find_docs db sid)))"
  by (simp add: get_chat_history_def to_list_def sort_timestamp_def)

lemma senders_chat_with_ai:
  assumes "list_all (\<lambda>m. user_or_assistant (sender m)) db"
  shows "list_all (\<lambda>m. user_or_assistant (sender m)) (store (chat_with_ai e db request))"
proof -
  have u: "user_or_assistant (sender (user_message_obj e request))"
    by (simp add: user_message_obj_def user_or_assistant_def)
  have a: "user_or_assistant (sender (ai_message_obj e request reply))" for reply
    by (simp add: ai_message_obj_def user_or_assistant_def)
  show ?thesis
  proof (cases rule: chat_paths [where e = e and db = db and request = request])
    case (insert_user x)
    from chat_insert_user_fault [OF this, of db request] assms show ?thesis by simp
  next
    case (find x)
    from chat_find_fault [OF this, of db request] assms u show ?thesis by simp
  next
    case (gateway x)
    from chat_gateway_error [OF this] assms u show ?thesis by simp
  next
    case no_choices
    from chat_no_choices [OF this] assms u show ?thesis by simp
  next
    case (null_content cs)
    from chat_null_content [OF this] assms u show ?thesis by simp
  next
    case (insert_assistant reply cs x)
    from chat_insert_assistant_fault [OF this] assms u show ?thesis by simp
  next
    case (success reply cs)
    from chat_success [OF this] assms u a show ?thesis by simp
  qed
qed

lemma senders_reachable:
  "chat_reachable db \<Longrightarrow> list_all (\<lambda>m. user_or_assistant (sender m)) db"
proof (induction rule: chat_reachable.induct)
  case empty
  show ?case by simp
next
  case (chat db e body)
  then show ?case
    by (simp add: post_chat_def senders_chat_with_ai split: sum.split)
qed

lemma inserted_senders:
  "map sender (inserted (ops (chat_with_ai e db request))) = [''user'']
   \<or> map sender (inserted (ops (chat_with_ai e db request))) = [''user'', ''assistant'']"
proof (cases rule: chat_paths [where e = e and db = db and request = request])
  case (insert_user x)
  from chat_insert_user_fault [OF this, of db request] show ?thesis
    by (simp add: user_message_obj_def)
next
  case (find x)
  from chat_find_fault [OF this, of db request] show ?thesis
    by (simp add: user_message_obj_def)
next
  case (gateway x)
  from chat_gateway_error [OF this] show ?thesis by (simp add: user_message_obj_def)
next
  case no_choices
  from chat_no_choices [OF this] show ?thesis by (simp add: user_message_obj_def)
next
  case (null_content cs)
  from chat_null_content [OF this] show ?thesis by (simp add: user_message_obj_def)
next
  case (insert_assistant reply cs x)
  from chat_insert_assistant_fault [OF this] show ?thesis
    by (simp add: user_message_obj_def ai_message_obj_def)
next
  case (success reply cs)
  from chat_success [OF this] show ?thesis
    by (simp add: user_message_obj_def ai_message_obj_def)
qed

lemma prompts_subset:
  "set (prompts (ops (chat_with_ai e db request))) \<subseteq> {fetched e db request}"
proof (cases rule: chat_paths [where e = e and db = db and request = request])
  case (insert_user x)
  from chat_insert_user_fault [OF this, of db request] show ?thesis by simp
next
  case (find x)
  from chat_find_fault [OF this, of db request] show ?thesis by simp
next
  case (gateway x)
  from chat_gateway_error [OF this] show ?thesis by simp
next
  case no_choices
  from chat_no_choices [OF this] show ?thesis by simp
next
  case (null_content cs)
  from chat_null_content [OF this] show ?thesis by simp
next
  case (insert_assistant reply cs x)
  from chat_insert_assistant_fault [OF this] show ?thesis by simp
next
  case (success reply cs)
  from chat_success [OF this] show ?thesis by simp
qed








lemma session_of_explicit:
  "session_of e request =
     (case request_session_id request of None \<Rightarrow> str_uuid (uuid_session e)
      | Some s \<Rightarrow> if s = [] then str_uuid (uuid_session e) else s)"
  by (simp add: session_of_def or_str_def)

lemma long_session_facts:
  "length long_session = 100"
  "map timestamp long_session = [0..<100]"
  "map session_id long_session = replicate 100 ''s1''"
  by (simp_all add: long_session_def turn_def comp_def map_replicate_const)

lemma history_long_session_101:
  "response (get_chat_history env_ok long_session_101 ''s1'') = OK long_session"
proof -
  have "filter (\<lambda>m. session_id m = ''s1'') long_session = long_session"
    by (simp add: long_session_def turn_def filter_map comp_def)
  then have fd: "find_docs long_session_101 ''s1'' = long_session_101"
    by (simp add: find_docs_def long_session_101_def turn_def)
  have "sorted (map timestamp long_session_101)"
    by (simp add: long_session_101_def long_session_facts sorted_append turn_def)
  then have so: "sort_key timestamp long_session_101 = long_session_101"
    by (rule sort_key_id_if_sorted)
  have tk: "take 100 long_session_101 = long_session"
    by (simp add: long_session_101_def long_session_facts)
  show ?thesis
    by (simp add: get_chat_history_ok env_ok_simps fd so tk)
qed

section \<open>Properties\<close>

text \<open>
  C1.  The query of lines 115 to 117 sorts the session by ascending timestamp and keeps
  the first five documents, so in a session that already holds six turns the prompt is
  built from the five oldest: the sixth stored turn and the user message just persisted
  (\<^verbatim>\<open>Hello\<close>, the seventh document of the store) are not in it.
\<close>

theorem context_window_oldest_five:
  "map content (concat (prompts (ops (chat_with_ai env_ok db6 request_plain)))) =
     [''You are a helpful travel assistant. Always give unique, personalized plans.'',
      ''Plan three days in Rome'', ''Day 1: Colosseum'', ''Add a day trip'', ''Day 4: Tivoli'',
      ''What about food?'']
   \<and> request_message request_plain = ''Hello''
   \<and> map message (store (chat_with_ai env_ok db6 request_plain)) =
     [''Plan three days in Rome'', ''Day 1: Colosseum'', ''Add a day trip'', ''Day 4: Tivoli'',
      ''What about food?'', ''Try carbonara'', ''Hello'', ''Here is your plan.'']"
  by (simp add: chat_with_ai_def chat_try_def Let_def insert_one_def env_ok_def session_of_def
      or_str_def user_message_obj_def ai_message_obj_def request_plain_def db6_def turn_def
      find_docs_def sort_timestamp_def to_list_def assemble_messages_def history_entries_def
      has_trip_context_def truthy_str_def truthy_int_def system_instructions_def)

text \<open>
  C2, as stated, fails: the history query returns at most the first 100 documents of the
  session.  After a successful chat request in a session that already holds 100 turns
  the history is these 100 turns, and its last two entries are old turns, not the two
  turns the request has persisted.
\<close>

theorem history_after_chat_counterexample:
  "response (chat_with_ai env_ok long_session request_plain) =
     OK \<lparr>response_message = ''Here is your plan.'', response_session_id = ''s1'',
         image_url = None\<rparr>
   \<and> response (get_chat_history env_ok (store (chat_with_ai env_ok long_session request_plain))
        ''s1'') = OK long_session
   \<and> length long_session = 100
   \<and> map message (drop 98 long_session) = [''98'', ''99'']"
proof -
  let ?u = "user_message_obj env_ok request_plain"
  let ?a = "ai_message_obj env_ok request_plain ''Here is your plan.''"
  note s = session_of_request_plain [of env_ok]
  note ok = chat_env_ok [of long_session request_plain]
  have len: "length long_session = 100"
    by (simp add: long_session_def)
  have fd: "find_docs (long_session @ [?u, ?a]) ''s1'' = long_session @ [?u, ?a]"
    by (simp add: find_docs_def long_session_def turn_def user_message_obj_def
        ai_message_obj_def s filter_map comp_def)
  have ts: "map timestamp long_session = [0..<100]"
    by (simp add: long_session_def turn_def comp_def)
  have "sorted (map timestamp (long_session @ [?u, ?a]))"
    by (simp add: ts sorted_append user_message_obj_def ai_message_obj_def env_ok_simps)
  then have so: "sort_key timestamp (long_session @ [?u, ?a]) = long_session @ [?u, ?a]"
    by (rule sort_key_id_if_sorted)
  have h: "response (get_chat_history env_ok (long_session @ [?u, ?a]) ''s1'') = OK long_session"
    by (simp add: get_chat_history_ok fd so len env_ok_simps)
  have d: "drop 98 [0..<100] = [98, 99::nat]"
    by (simp add: drop_upt upt_rec)
  have "map message (drop 98 long_session) = map str_nat (drop 98 [0..<100])"
    by (simp add: long_session_def turn_def drop_map comp_def)
  also have "\<dots> = [''98'', ''99'']"
    unfolding d by (simp add: str_nat.simps)
  finally show ?thesis
    using h len by (simp add: ok s)
qed

text \<open>
  C2, amended.  When a chat request succeeds, the clock readings of its two turns are in
  order and not before any timestamp stored for the session, and the session holds at
  most 100 turns once the two are stored, then a history query that the store answers
  returns the history as it was before the request followed by the user turn and the
  assistant turn of the request, in that order.
\<close>

theorem history_after_chat:
  assumes "response (chat_with_ai e db request) = OK r"
    and "find_fault e' = None"
    and "\<forall>m \<in> set db. session_id m = response_session_id r \<longrightarrow> timestamp m \<le> now_user e"
    and "now_user e \<le> now_assistant e"
    and "length (filter (\<lambda>m. session_id m = response_session_id r) db) + 2 \<le> 100"
  shows "\<exists>old. response (get_chat_history e' db (response_session_id r)) = OK old
           \<and> response (get_chat_history e' (store (chat_with_ai e db request))
                 (response_session_id r)) =
               OK (old @
                   [\<lparr>id' = str_uuid (uuid_user e), session_id = response_session_id r,
                     message = request_message request, sender = ''user'',
                     timestamp = now_user e\<rparr>,
                    \<lparr>id' = str_uuid (uuid_assistant e), session_id = response_session_id r,
                     message = response_message r, sender = ''assistant'',
                     timestamp = now_assistant e\<rparr>])"
proof -
  let ?sid = "response_session_id r"
  let ?u = "user_message_obj e request"
  let ?a = "ai_message_obj e request (response_message r)"
  let ?old = "find_docs db ?sid"
  from chat_OK_D [OF assms(1)]
  have st: "store (chat_with_ai e db request) = db @ [?u, ?a]"
    and sid: "?sid = session_of e request"
    by simp_all
  have fd: "find_docs (db @ [?u, ?a]) ?sid = ?old @ [?u, ?a]"
    by (simp add: find_docs_def sid user_message_obj_def ai_message_obj_def)
  have le_u: "\<forall>x \<in> set ?old. timestamp x \<le> timestamp ?u"
    using assms(3) by (simp add: find_docs_def user_message_obj_def)
  have le_a: "\<forall>x \<in> set (?old @ [?u]). timestamp x \<le> timestamp ?a"
    using assms(3,4) by (auto simp add: find_docs_def user_message_obj_def ai_message_obj_def)
  have "sort_key timestamp ((?old @ [?u]) @ [?a]) = sort_key timestamp (?old @ [?u]) @ [?a]"
    using le_a by (rule sort_key_snoc_max)
  also have "sort_key timestamp (?old @ [?u]) = sort_key timestamp ?old @ [?u]"
    using le_u by (rule sort_key_snoc_max)
  finally have so: "sort_key timestamp (?old @ [?u, ?a]) = sort_key timestamp ?old @ [?u, ?a]"
    by simp
  have len: "length ?old + 2 \<le> 100"
    using assms(5) by (simp add: find_docs_def)
  have "response (get_chat_history e' (db @ [?u, ?a]) ?sid) =
        OK (sort_key timestamp ?old @ [?u, ?a])"
    using len by (simp add: get_chat_history_ok [OF assms(2)] fd so)
  moreover have "response (get_chat_history e' db ?sid) = OK (sort_key timestamp ?old)"
    using len by (simp add: get_chat_history_ok [OF assms(2)])
  ultimately show ?thesis
    by (simp add: st user_message_obj_def ai_message_obj_def sid)
qed

theorem history_after_chat_witness:
  "response (chat_with_ai env_ok db6 request_plain) =
     OK \<lparr>response_message = ''Here is your plan.'', response_session_id = ''s1'',
         image_url = None\<rparr>
   \<and> response (get_chat_history env_ok (store (chat_with_ai env_ok db6 request_plain)) ''s1'') =
       OK (db6 @
           [\<lparr>id' = str_uuid 2, session_id = ''s1'', message = ''Hello'', sender = ''user'',
             timestamp = 1000\<rparr>,
            \<lparr>id' = str_uuid 3, session_id = ''s1'', message = ''Here is your plan.'',
             sender = ''assistant'', timestamp = 1001\<rparr>])"
proof -
  let ?r = "\<lparr>response_message = ''Here is your plan.'', response_session_id = ''s1'',
         image_url = None\<rparr>"
  have ok: "response (chat_with_ai env_ok db6 request_plain) = OK ?r"
    by (simp add: chat_env_ok session_of_request_plain)
  have old: "response (get_chat_history env_ok db6 ''s1'') = OK db6"
    by (simp add: get_chat_history_def env_ok_simps db6_def turn_def find_docs_def
        sort_timestamp_def to_list_def)
  have m: "request_message request_plain = ''Hello''"
    by (simp add: request_plain_def)
  have "\<forall>m \<in> set db6. session_id m = ''s1'' \<longrightarrow> timestamp m \<le> 1000"
    by (simp add: db6_def turn_def)
  moreover have "length (filter (\<lambda>m. session_id m = ''s1'') db6) + 2 \<le> 100"
    by (simp add: db6_def turn_def)
  ultimately show ?thesis
    using history_after_chat [of env_ok db6 request_plain ?r env_ok] ok old
    by (simp add: env_ok_simps m)
qed

text \<open>
  C3.  The body \<^verbatim>\<open>{"message": "", "session_id": ""}\<close> passes validation (\<^verbatim>\<open>ChatRequest\<close> has
  no length constraint), the handler runs, and with a working store and provider the
  answer is 200 and two turns are stored: the user turn with the empty message and the
  assistant turn, both under a fresh session.
\<close>

theorem empty_chat_body_accepted:
  "response (post_chat env_ok [] body_empty) =
     OK \<lparr>response_message = ''Here is your plan.'', response_session_id = str_uuid 1,
         image_url = None\<rparr>
   \<and> status_code (response (post_chat env_ok [] body_empty)) = 200
   \<and> store (post_chat env_ok [] body_empty) =
       [\<lparr>id' = str_uuid 2, session_id = str_uuid 1, message = [], sender = ''user'',
         timestamp = 1000\<rparr>,
        \<lparr>id' = str_uuid 3, session_id = str_uuid 1, message = ''Here is your plan.'',
         sender = ''assistant'', timestamp = 1001\<rparr>]"
  by (simp add: post_chat_def validate_chat_request_def body_empty_def chat_with_ai_def
      chat_try_def Let_def insert_one_def env_ok_def session_of_def or_str_def
      user_message_obj_def ai_message_obj_def)

text \<open>
  C4, as stated, fails: a trip field that is present but empty does not count.  A request
  whose only trip field is \<^verbatim>\<open>location = ""\<close> gets a prompt of \<open>1 + min 5 stored_count\<close>
  entries (here 2, not 3), without the trip entry.
\<close>

theorem trip_fields_prompt_counterexample:
  "location request_empty_location = Some []
   \<and> map length (prompts (ops (chat_with_ai env_ok [] request_empty_location))) = [2]
   \<and> 2 + min 5 (Suc (length (find_docs [] (session_of env_ok request_empty_location)))) = (3::nat)"
  by (simp add: chat_with_ai_def chat_try_def Let_def insert_one_def env_ok_def session_of_def
      or_str_def user_message_obj_def ai_message_obj_def request_empty_location_def
      request_plain_def find_docs_def sort_timestamp_def to_list_def assemble_messages_def
      history_entries_def has_trip_context_def truthy_str_def truthy_int_def)

text \<open>
  C4, amended.  A request with at least one trip field that is truthy in Python (a
  non-empty string, or a traveler count other than 0), in a run where the store accepts
  the user turn and answers the query: exactly one prompt is sent.  It has
  \<open>2 + min 5 stored_count\<close> entries, where \<open>stored_count\<close> is one (the user turn
  just written) plus the number of stored turns whose \<^verbatim>\<open>session_id\<close> is the session of
  the request (the \<^verbatim>\<open>session_id\<close> sent, or the string of the identifier drawn when none or
  an empty one was sent).  Its last entry is a system entry with the four labels, where
  \<^verbatim>\<open>not specified\<close> stands for each text field that is absent or empty and \<^verbatim>\<open>1\<close> for a
  traveler count that is absent or 0.
\<close>

theorem trip_fields_prompt:
  assumes "insert_user_fault e = None" and "find_fault e = None"
    and "(\<exists>s. location request = Some s \<and> s \<noteq> []) \<or> (\<exists>s. duration request = Some s \<and> s \<noteq> [])
         \<or> (\<exists>s. budget request = Some s \<and> s \<noteq> []) \<or> (\<exists>n. travelers request = Some n \<and> n \<noteq> 0)"
  shows "map length (prompts (ops (chat_with_ai e db request))) =
           [2 + min 5 (Suc (length (filter
              (\<lambda>m. session_id m =
                 (case request_session_id request of None \<Rightarrow> str_uuid (uuid_session e)
                  | Some s \<Rightarrow> if s = [] then str_uuid (uuid_session e) else s)) db)))]
         \<and> map last (prompts (ops (chat_with_ai e db request))) =
           [\<lparr>role = ''system'',
             content =
               [CHR 0x0A] @ ''            Trip details:'' @
               [CHR 0x0A] @ ''            - Location: '' @
                 (case location request of None \<Rightarrow> ''not specified''
                  | Some s \<Rightarrow> if s = [] then ''not specified'' else s) @
               [CHR 0x0A] @ ''            - Duration: '' @
                 (case duration request of None \<Rightarrow> ''not specified''
                  | Some s \<Rightarrow> if s = [] then ''not specified'' else s) @
               [CHR 0x0A] @ ''            - Budget: '' @
                 (case budget request of None \<Rightarrow> ''not specified''
                  | Some s \<Rightarrow> if s = [] then ''not specified'' else s) @
               [CHR 0x0A] @ ''            - Travelers: '' @
                 str_int (case travelers request of None \<Rightarrow> 1
                          | Some n \<Rightarrow> if n = 0 then 1 else n) @
               [CHR 0x0A] @ ''            ''\<rparr>]"
proof -
  have "has_trip_context request"
    using assms(3) by (auto simp add: has_trip_context_def truthy_str_def truthy_int_def)
  then have p: "fetched e db request =
      system_instructions #
      history_entries (to_list 5 (sort_timestamp
          (find_docs (db @ [user_message_obj e request]) (session_of e request))))
      @ [\<lparr>role = ''system'', content = trip_context request\<rparr>]"
    by (simp add: fetched_def assemble_messages_def Let_def)
  have t: "trip_context request =
               [CHR 0x0A] @ ''            Trip details:'' @
               [CHR 0x0A] @ ''            - Location: '' @
                 (case location request of None \<Rightarrow> ''not specified''
                  | Some s \<Rightarrow> if s = [] then ''not specified'' else s) @
               [CHR 0x0A] @ ''            - Duration: '' @
                 (case duration request of None \<Rightarrow> ''not specified''
                  | Some s \<Rightarrow> if s = [] then ''not specified'' else s) @
               [CHR 0x0A] @ ''            - Budget: '' @
                 (case budget request of None \<Rightarrow> ''not specified''
                  | Some s \<Rightarrow> if s = [] then ''not specified'' else s) @
               [CHR 0x0A] @ ''            - Travelers: '' @
                 str_int (case travelers request of None \<Rightarrow> 1
                          | Some n \<Rightarrow> if n = 0 then 1 else n) @
               [CHR 0x0A] @ ''            ''"
    unfolding trip_context_def or_str_def or_int_def newline_def ..
  have l: "length (fetched e db request) =
      2 + min 5 (Suc (length (find_docs db (session_of e request))))"
    unfolding p by (simp add: history_entries_def length_fetch)
  have "last (fetched e db request) = \<lparr>role = ''system'', content = trip_context request\<rparr>"
    unfolding p by simp
  with l have "map length (prompts (ops (chat_with_ai e db request))) =
           [2 + min 5 (Suc (length (find_docs db (session_of e request))))]
         \<and> map last (prompts (ops (chat_with_ai e db request))) =
           [\<lparr>role = ''system'', content = trip_context request\<rparr>]"
    unfolding prompts_chat_with_ai [OF assms(1,2), of db request] by simp
  then show ?thesis
    unfolding find_docs_def session_of_explicit t .
qed

theorem trip_fields_prompt_witness:
  "insert_user_fault env_ok = None \<and> find_fault env_ok = None
   \<and> location request_rome = Some ''Rome'' \<and> duration request_rome = None
   \<and> budget request_rome = None \<and> travelers request_rome = None
   \<and> map session_id db_two_sessions = [''s1'', ''s2'', ''s1'']
   \<and> map length (prompts (ops (chat_with_ai env_ok db_two_sessions request_rome))) = [5]
   \<and> length db6 = 6
   \<and> map length (prompts (ops (chat_with_ai env_ok db6 request_rome))) = [7]
   \<and> map last (prompts (ops (chat_with_ai env_ok db6 request_rome))) =
       [\<lparr>role = ''system'',
         content =
           [CHR 0x0A] @ ''            Trip details:'' @
           [CHR 0x0A] @ ''            - Location: Rome'' @
           [CHR 0x0A] @ ''            - Duration: not specified'' @
           [CHR 0x0A] @ ''            - Budget: not specified'' @
           [CHR 0x0A] @ ''            - Travelers: 1'' @
           [CHR 0x0A] @ ''            ''\<rparr>]
   \<and> map last (prompts (ops (chat_with_ai env_ok [] request_paris))) =
       [\<lparr>role = ''system'',
         content =
           [CHR 0x0A] @ ''            Trip details:'' @
           [CHR 0x0A] @ ''            - Location: Paris, France'' @
           [CHR 0x0A] @ ''            - Duration: 5 days'' @
           [CHR 0x0A] @ ''            - Budget: $2000-3000'' @
           [CHR 0x0A] @ ''            - Travelers: 2'' @
           [CHR 0x0A] @ ''            ''\<rparr>]"
  using trip_fields_prompt [of env_ok request_rome db_two_sessions]
    trip_fields_prompt [of env_ok request_rome db6]
    trip_fields_prompt [of env_ok request_paris "[]"]
  by (simp add: env_ok_simps request_rome_def request_plain_def request_paris_def
      db_two_sessions_def db6_def turn_def str_int_def str_nat.simps)

text \<open>
  C5.  A request that carries none of the four trip fields, in a run where the store
  accepts the user turn and answers the query: exactly one prompt is sent.  It has
  \<open>1 + min 5 stored_count\<close> entries, where \<open>stored_count\<close> is one (the user turn
  just written) plus the number of stored turns whose \<^verbatim>\<open>session_id\<close> is the session of
  the request (the \<^verbatim>\<open>session_id\<close> sent, or the string of the identifier drawn when none or
  an empty one was sent), and its first entry is the system entry with the fixed
  instruction text.
\<close>

theorem no_trip_fields_prompt:
  assumes "insert_user_fault e = None" and "find_fault e = None"
    and "budget request = None" and "location request = None"
    and "duration request = None" and "travelers request = None"
  shows "map length (prompts (ops (chat_with_ai e db request))) =
           [1 + min 5 (Suc (length (filter
              (\<lambda>m. session_id m =
                 (case request_session_id request of None \<Rightarrow> str_uuid (uuid_session e)
                  | Some s \<Rightarrow> if s = [] then str_uuid (uuid_session e) else s)) db)))]
         \<and> map hd (prompts (ops (chat_with_ai e db request))) =
           [\<lparr>role = ''system'',
             content = ''You are a helpful travel assistant. Always give unique, personalized plans.''\<rparr>]"
proof -
  have "\<not> has_trip_context request"
    using assms(3-6) by (simp add: has_trip_context_def truthy_str_def truthy_int_def)
  then have "map length (prompts (ops (chat_with_ai e db request))) =
           [1 + min 5 (Suc (length (find_docs db (session_of e request))))]
         \<and> map hd (prompts (ops (chat_with_ai e db request))) =
           [\<lparr>role = ''system'',
             content = ''You are a helpful travel assistant. Always give unique, personalized plans.''\<rparr>]"
    using prompts_chat_with_ai [OF assms(1,2), of db request]
    by (simp add: fetched_def assemble_messages_def Let_def history_entries_def length_fetch
        system_instructions_def)
  then show ?thesis
    unfolding find_docs_def session_of_explicit .
qed

theorem no_trip_fields_prompt_witness:
  "insert_user_fault env_ok = None \<and> find_fault env_ok = None
   \<and> budget request_plain = None \<and> location request_plain = None
   \<and> duration request_plain = None \<and> travelers request_plain = None
   \<and> map session_id db_two_sessions = [''s1'', ''s2'', ''s1'']
   \<and> map length (prompts (ops (chat_with_ai env_ok db_two_sessions request_plain))) = [4]
   \<and> length db6 = 6
   \<and> map length (prompts (ops (chat_with_ai env_ok db6 request_plain))) = [6]
   \<and> map hd (prompts (ops (chat_with_ai env_ok db6 request_plain))) =
           [\<lparr>role = ''system'',
             content = ''You are a helpful travel assistant. Always give unique, personalized plans.''\<rparr>]"
  using no_trip_fields_prompt [of env_ok request_plain db_two_sessions]
    no_trip_fields_prompt [of env_ok request_plain db6]
  by (simp add: env_ok_simps request_plain_def db_two_sessions_def db6_def turn_def)

text \<open>
  C6, as stated, fails: the detail sent to the caller carries the text of the exception.
  A refused store connection and a rejected API key give two different details, each
  with the internal text in it.
\<close>

theorem chat_failure_detail_counterexample:
  "response (chat_with_ai env_store_down [] request_plain) =
     HTTPException 500 ''Chat processing failed: db.internal:27017: connection refused''
   \<and> response (chat_with_ai env_gateway_down [] request_plain) =
     HTTPException 500 ''Chat processing failed: Incorrect API key provided: sk-test''"
  by (simp add: chat_with_ai_def chat_try_def Let_def env_store_down_def env_gateway_down_def
      env_ok_def insert_one_def)

text \<open>
  C6, amended.  Every failure of the chat handler is answered with status 500 and the
  detail \<^verbatim>\<open>Chat processing failed: \<close> followed by the text of the exception, and the same
  text is the last thing logged, after \<^verbatim>\<open>Chat error: \<close>.  The text is the store's for a
  failing insertion of the user turn, a failing query and a failing insertion of the
  assistant turn, the provider's for a failing completion call, Python's
  \<^verbatim>\<open>list index out of range\<close> for a completion without choices, and that of pydantic's
  validation error for a first choice without content.
\<close>

theorem chat_failure_detail:
  "(let out = chat_with_ai e db request; p = fetched e db request
    in ((\<forall>r. response out \<noteq> OK r) \<longrightarrow>
          (\<exists>x. response out = HTTPException 500 (''Chat processing failed: '' @ x)
             \<and> last (ops out) = LogError (''Chat error: '' @ x)))
       \<and> (\<forall>x. insert_user_fault e = Some x \<longrightarrow>
             response out = HTTPException 500 (''Chat processing failed: '' @ x)
             \<and> last (ops out) = LogError (''Chat error: '' @ x))
       \<and> (\<forall>x. insert_user_fault e = None \<and> find_fault e = Some x \<longrightarrow>
             response out = HTTPException 500 (''Chat processing failed: '' @ x)
             \<and> last (ops out) = LogError (''Chat error: '' @ x))
       \<and> (\<forall>x. insert_user_fault e = None \<and> find_fault e = None
               \<and> create_completion e p = Inl x \<longrightarrow>
             response out = HTTPException 500 (''Chat processing failed: '' @ x)
             \<and> last (ops out) = LogError (''Chat error: '' @ x))
       \<and> (insert_user_fault e = None \<and> find_fault e = None \<and> create_completion e p = Inr [] \<longrightarrow>
             response out = HTTPException 500 ''Chat processing failed: list index out of range''
             \<and> last (ops out) = LogError ''Chat error: list index out of range'')
       \<and> (\<forall>cs. insert_user_fault e = None \<and> find_fault e = None
               \<and> create_completion e p = Inr (None # cs) \<longrightarrow>
             response out = HTTPException 500 (''Chat processing failed: '' @ validation_text e)
             \<and> last (ops out) = LogError (''Chat error: '' @ validation_text e))
       \<and> (\<forall>reply cs x. insert_user_fault e = None \<and> find_fault e = None
               \<and> create_completion e p = Inr (Some reply # cs)
               \<and> insert_assistant_fault e = Some x \<longrightarrow>
             response out = HTTPException 500 (''Chat processing failed: '' @ x)
             \<and> last (ops out) = LogError (''Chat error: '' @ x)))"
proof (cases rule: chat_paths [where e = e and db = db and request = request])
  case (insert_user x)
  from chat_insert_user_fault [OF this, of db request] show ?thesis
    using insert_user by (simp add: Let_def)
next
  case (find x)
  from chat_find_fault [OF this, of db request] show ?thesis
    using find by (simp add: Let_def)
next
  case (gateway x)
  from chat_gateway_error [OF this] show ?thesis
    using gateway by (simp add: Let_def)
next
  case no_choices
  from chat_no_choices [OF this] show ?thesis
    using no_choices by (simp add: Let_def)
next
  case (null_content cs)
  from chat_null_content [OF this] show ?thesis
    using null_content by (simp add: Let_def)
next
  case (insert_assistant reply cs x)
  from chat_insert_assistant_fault [OF this] show ?thesis
    using insert_assistant by (simp add: Let_def)
next
  case (success reply cs)
  from chat_success [OF this] show ?thesis
    using success by (simp add: Let_def)
qed

theorem chat_failure_detail_witness:
  "response (chat_with_ai env_store_down [] request_plain) =
     HTTPException 500 ''Chat processing failed: db.internal:27017: connection refused''
   \<and> last (ops (chat_with_ai env_store_down [] request_plain)) =
     LogError ''Chat error: db.internal:27017: connection refused''
   \<and> response (chat_with_ai env_find_down [] request_plain) =
     HTTPException 500 ''Chat processing failed: cursor id 42 not found''
   \<and> response (chat_with_ai env_gateway_down [] request_plain) =
     HTTPException 500 ''Chat processing failed: Incorrect API key provided: sk-test''
   \<and> response (chat_with_ai env_no_choices [] request_plain) =
     HTTPException 500 ''Chat processing failed: list index out of range''
   \<and> response (chat_with_ai env_null_content [] request_plain) =
     HTTPException 500 ''Chat processing failed: 1 validation error for ChatMessage''
   \<and> response (chat_with_ai env_insert_assistant_down [] request_plain) =
     HTTPException 500 ''Chat processing failed: not primary''
   \<and> last (ops (chat_with_ai env_insert_assistant_down [] request_plain)) =
     LogError ''Chat error: not primary''"
  using chat_failure_detail [of env_store_down "[]" request_plain]
    chat_failure_detail [of env_find_down "[]" request_plain]
    chat_failure_detail [of env_gateway_down "[]" request_plain]
    chat_failure_detail [of env_no_choices "[]" request_plain]
    chat_failure_detail [of env_null_content "[]" request_plain]
    chat_failure_detail [of env_insert_assistant_down "[]" request_plain]
  by (simp add: chat_with_ai_def chat_try_def Let_def insert_one_def
      env_store_down_def env_find_down_def env_gateway_down_def env_no_choices_def
      env_null_content_def env_insert_assistant_down_def env_ok_def)




text \<open>
  C8, as stated, fails: the query keeps the first 100 documents of the ascending order.
  For a session of 101 stored turns the answer is the 100 oldest, without the most recent
  turn.
\<close>

theorem chat_history_ascending_counterexample:
  "set (map session_id long_session_101) = {''s1''}
   \<and> length long_session_101 = 101
   \<and> response (get_chat_history env_ok long_session_101 ''s1'') = OK long_session
   \<and> length long_session = 100"
proof -
  have "set (map session_id long_session_101) = {''s1''}"
    by (simp add: long_session_101_def long_session_facts turn_def)
  moreover have "length long_session_101 = 101"
    by (simp add: long_session_101_def long_session_facts)
  ultimately show ?thesis
    by (simp add: history_long_session_101 long_session_facts)
qed

text \<open>
  C8, amended.  When the store answers the query, \<^verbatim>\<open>GET /api/chat-history/{session_id}\<close>
  answers 200 and leaves the store as it was.  The list returned is the first
  \<open>min 100 n\<close> entries of the \<open>n\<close> stored turns of the session arranged by ascending
  timestamp: followed by the remaining turns it is an ascending arrangement of exactly
  the stored turns with this \<^verbatim>\<open>session_id\<close>.  So it is all of them when the session has at
  most 100 turns, the 100 oldest otherwise, and the empty list when no stored turn
  carries the session id.
\<close>

theorem chat_history_ascending:
  assumes "find_fault e = None"
  shows "\<exists>h rest. response (get_chat_history e db sid) = OK h
           \<and> status_code (response (get_chat_history e db sid)) = 200
           \<and> store (get_chat_history e db sid) = db
           \<and> sorted (map timestamp (h @ rest))
           \<and> mset (h @ rest) = filter_mset (\<lambda>m. session_id m = sid) (mset db)
           \<and> length h = min 100 (length (filter (\<lambda>m. session_id m = sid) db))
           \<and> (\<forall>m \<in> set h. m \<in> set db \<and> session_id m = sid)
           \<and> (length (filter (\<lambda>m. session_id m = sid) db) \<le> 100 \<longrightarrow>
                mset h = filter_mset (\<lambda>m. session_id m = sid) (mset db))
           \<and> ((\<forall>m \<in> set db. session_id m \<noteq> sid) \<longrightarrow> h = [])"
proof -
  let ?s = "sort_key timestamp (find_docs db sid)"
  let ?h = "take 100 ?s"
  let ?rest = "drop 100 ?s"
  have r: "response (get_chat_history e db sid) = OK ?h"
    using assms by (rule get_chat_history_ok)
  then have sc: "status_code (response (get_chat_history e db sid)) = 200"
    by simp
  have st: "store (get_chat_history e db sid) = db"
    using assms by (simp add: get_chat_history_def)
  have so: "sorted (map timestamp (?h @ ?rest))"
    by simp
  have ms: "mset (?h @ ?rest) = filter_mset (\<lambda>m. session_id m = sid) (mset db)"
    by (simp add: find_docs_def)
  have le: "length ?h = min 100 (length (filter (\<lambda>m. session_id m = sid) db))"
    by (simp add: find_docs_def min.commute)
  have sub: "\<forall>m \<in> set ?h. m \<in> set db \<and> session_id m = sid"
  proof
    fix m assume "m \<in> set ?h"
    then have "m \<in> set (sort_key timestamp (find_docs db sid))"
      by (rule in_set_takeD)
    then show "m \<in> set db \<and> session_id m = sid"
      by (simp add: find_docs_def)
  qed
  have all: "length (filter (\<lambda>m. session_id m = sid) db) \<le> 100 \<longrightarrow>
      mset ?h = filter_mset (\<lambda>m. session_id m = sid) (mset db)"
    by (simp add: find_docs_def)
  have none: "(\<forall>m \<in> set db. session_id m \<noteq> sid) \<longrightarrow> ?h = []"
    by (simp add: find_docs_def filter_empty_conv)
  show ?thesis
    by (rule exI [of _ ?h], rule exI [of _ ?rest])
      (rule conjI [OF r conjI [OF sc conjI [OF st conjI [OF so conjI [OF ms conjI [OF le
         conjI [OF sub conjI [OF all none]]]]]]]])
qed

theorem chat_history_ascending_witness:
  "find_fault env_ok = None
   \<and> response (get_chat_history env_ok db6 ''s1'') = OK db6
   \<and> sorted (map timestamp db6)
   \<and> response (get_chat_history env_ok db_two_sessions ''s1'') =
       OK [turn 1 ''user'' ''Plan three days in Rome'', turn 3 ''assistant'' ''Day 1: Colosseum'']
   \<and> response (get_chat_history env_ok long_session_101 ''s1'') = OK long_session
   \<and> response (get_chat_history env_ok db6 ''unknown-id'') = OK []
   \<and> status_code (response (get_chat_history env_ok db6 ''unknown-id'')) = 200"
proof -
  have f: "find_fault env_ok = None"
    by (simp add: env_ok_simps)
  have a: "response (get_chat_history env_ok db6 ''s1'') = OK db6"
    by (simp add: get_chat_history_def env_ok_simps db6_def turn_def find_docs_def
        sort_timestamp_def to_list_def)
  have b: "response (get_chat_history env_ok db6 ''unknown-id'') = OK []"
    by (simp add: get_chat_history_def env_ok_simps db6_def turn_def find_docs_def
        sort_timestamp_def to_list_def)
  have d: "response (get_chat_history env_ok db_two_sessions ''s1'') =
       OK [turn 1 ''user'' ''Plan three days in Rome'', turn 3 ''assistant'' ''Day 1: Colosseum'']"
    by (simp add: get_chat_history_def env_ok_simps db_two_sessions_def turn_def find_docs_def
        sort_timestamp_def to_list_def)
  from chat_history_ascending [OF f, of db6 "''s1''"]
  obtain h rest where h: "response (get_chat_history env_ok db6 ''s1'') = OK h"
    and s: "sorted (map timestamp (h @ rest))"
    by (elim exE conjE)
  from h a have "h = db6"
    by simp
  with s have s': "sorted (map timestamp db6)"
    by (simp add: sorted_append)
  from chat_history_ascending [OF f, of db6 "''unknown-id''"]
  have c: "status_code (response (get_chat_history env_ok db6 ''unknown-id'')) = 200"
    by (elim exE conjE)
  show ?thesis
    by (rule conjI [OF f conjI [OF a conjI [OF s' conjI [OF d
          conjI [OF history_long_session_101 conjI [OF b c]]]]]])
qed



text \<open>
  C10.  In a store that only the chat endpoint has written, a chat request inserts a turn
  of sender \<^verbatim>\<open>user\<close> and then, at most, a turn of sender \<^verbatim>\<open>assistant\<close>; every turn of
  the resulting store has one of these two senders; and every prompt sent is the system
  entry, then the entries of the fetched turns, whose roles are therefore \<^verbatim>\<open>user\<close> or
  \<^verbatim>\<open>assistant\<close>, then at most the trip entry.
\<close>

theorem senders_user_or_assistant:
  assumes "chat_reachable db"
  shows "(map sender (inserted (ops (chat_with_ai e db request))) = [''user'']
          \<or> map sender (inserted (ops (chat_with_ai e db request))) = [''user'', ''assistant''])
         \<and> list_all (\<lambda>m. sender m = ''user'' \<or> sender m = ''assistant'')
              (store (chat_with_ai e db request))
         \<and> (\<forall>p \<in> set (prompts (ops (chat_with_ai e db request))).
              \<exists>(history :: ChatMessage list) tail.
                p = \<lparr>role = ''system'',
                     content = ''You are a helpful travel assistant. Always give unique, personalized plans.''\<rparr>
                    # map (\<lambda>msg. \<lparr>role = sender msg, content = message msg\<rparr>) history @ tail
                \<and> list_all (\<lambda>msg. sender msg = ''user'' \<or> sender msg = ''assistant'') history
                \<and> (tail = [] \<or> tail = [\<lparr>role = ''system'', content = trip_context request\<rparr>]))"
proof -
  let ?u = "user_message_obj e request"
  let ?history = "to_list 5 (sort_timestamp (find_docs (db @ [?u]) (session_of e request)))"
  let ?tail = "if has_trip_context request
               then [\<lparr>role = ''system'', content = trip_context request\<rparr>] else []"
  have db: "list_all (\<lambda>m. user_or_assistant (sender m)) db"
    using assms by (rule senders_reachable)
  then have st: "list_all (\<lambda>m. sender m = ''user'' \<or> sender m = ''assistant'')
      (store (chat_with_ai e db request))"
    using senders_chat_with_ai [of db e request] by (simp add: user_or_assistant_def)
  have "set ?history \<subseteq> set (db @ [?u])"
    unfolding to_list_def sort_timestamp_def find_docs_def
    by (auto dest: in_set_takeD)
  moreover have "list_all (\<lambda>m. user_or_assistant (sender m)) (db @ [?u])"
    using db by (simp add: user_message_obj_def user_or_assistant_def)
  ultimately have h: "list_all (\<lambda>msg. sender msg = ''user'' \<or> sender msg = ''assistant'') ?history"
    unfolding list_all_iff user_or_assistant_def by blast
  have f: "fetched e db request =
      \<lparr>role = ''system'',
       content = ''You are a helpful travel assistant. Always give unique, personalized plans.''\<rparr>
      # map (\<lambda>msg. \<lparr>role = sender msg, content = message msg\<rparr>) ?history
      @ (if has_trip_context request
         then [\<lparr>role = ''system'', content = trip_context request\<rparr>] else [])"
    by (simp add: fetched_def assemble_messages_def Let_def history_entries_def
        system_instructions_def)
  have pr: "\<forall>p \<in> set (prompts (ops (chat_with_ai e db request))).
              \<exists>(history :: ChatMessage list) tail.
                p = \<lparr>role = ''system'',
                     content = ''You are a helpful travel assistant. Always give unique, personalized plans.''\<rparr>
                    # map (\<lambda>msg. \<lparr>role = sender msg, content = message msg\<rparr>) history @ tail
                \<and> list_all (\<lambda>msg. sender msg = ''user'' \<or> sender msg = ''assistant'') history
                \<and> (tail = [] \<or> tail = [\<lparr>role = ''system'', content = trip_context request\<rparr>])"
  proof
    fix p assume "p \<in> set (prompts (ops (chat_with_ai e db request)))"
    with prompts_subset [of e db request] have "p = fetched e db request"
      by auto
    with f have e1: "p = \<lparr>role = ''system'',
                     content = ''You are a helpful travel assistant. Always give unique, personalized plans.''\<rparr>
                    # map (\<lambda>msg. \<lparr>role = sender msg, content = message msg\<rparr>) ?history @ ?tail"
      by (simp only:)
    have e3: "?tail = [] \<or> ?tail = [\<lparr>role = ''system'', content = trip_context request\<rparr>]"
      by simp
    show "\<exists>(history :: ChatMessage list) tail.
                p = \<lparr>role = ''system'',
                     content = ''You are a helpful travel assistant. Always give unique, personalized plans.''\<rparr>
                    # map (\<lambda>msg. \<lparr>role = sender msg, content = message msg\<rparr>) history @ tail
                \<and> list_all (\<lambda>msg. sender msg = ''user'' \<or> sender msg = ''assistant'') history
                \<and> (tail = [] \<or> tail = [\<lparr>role = ''system'', content = trip_context request\<rparr>])"
      by (rule exI [of _ ?history], rule exI [of _ ?tail]) (rule conjI [OF e1 conjI [OF h e3]])
  qed
  show ?thesis
    by (rule conjI [OF inserted_senders conjI [OF st pr]])
qed

theorem senders_user_or_assistant_witness:
  "chat_reachable (store (post_chat env_ok [] body_empty))
   \<and> list_all (\<lambda>m. sender m = ''user'' \<or> sender m = ''assistant'')
         (store (chat_with_ai env_ok (store (post_chat env_ok [] body_empty)) request_plain))
   \<and> map sender (store (chat_with_ai env_ok (store (post_chat env_ok [] body_empty)) request_plain)) =
       [''user'', ''assistant'', ''user'', ''assistant'']
   \<and> map (map role) (prompts (ops (chat_with_ai env_ok [] request_plain))) =
       [[''system'', ''user'']]"
proof -
  have r: "chat_reachable (store (post_chat env_ok [] body_empty))"
    by (rule chat_reachable.chat) (rule chat_reachable.empty)
  note t = senders_user_or_assistant [OF r, of env_ok request_plain]
  have a: "map sender (store (chat_with_ai env_ok (store (post_chat env_ok [] body_empty)) request_plain)) =
       [''user'', ''assistant'', ''user'', ''assistant'']"
    by (simp add: post_chat_def validate_chat_request_def body_empty_def chat_env_ok
        user_message_obj_def ai_message_obj_def)
  have b: "map (map role) (prompts (ops (chat_with_ai env_ok [] request_plain))) =
       [[''system'', ''user'']]"
    by (simp add: chat_env_ok fetched_def assemble_messages_def Let_def history_entries_def
        has_trip_context_def truthy_str_def truthy_int_def system_instructions_def
        find_docs_def sort_timestamp_def to_list_def user_message_obj_def
        session_of_request_plain request_plain_def)
  show ?thesis
    by (rule conjI [OF r conjI [OF conjunct1 [OF conjunct2 [OF t]] conjI [OF a b]]])
qed

end
